theory Spec2Isabelle
  imports Complex_Main
begin

section \<open>The LLM invocation layer of neoqa: data model\<close>

text \<open>
  The development embeds three source files of the dataset-generation toolkit:
  \<^item> \<^verbatim>\<open>data_gen/llm/wrapper/models/vllm_wrapper.py\<close> (class \<^verbatim>\<open>VLLMWrapper\<close>),
  \<^item> \<^verbatim>\<open>data_gen/llm/wrapper/models/openrouter_wrapper.py\<close> (class \<^verbatim>\<open>OPENROUTERWrapper\<close>),
  \<^item> \<^verbatim>\<open>data_gen/llm/get_llm.py\<close> (function \<^verbatim>\<open>get_llm\<close>).

  Python exceptions are values of the type \<open>error\<close>, and a function that may raise returns
  \<open>error + 'a\<close>. Mutation of the adapter object, of the shared cache and of the outside world
  (network calls, sleeps, the debug log file) is explicit state passing: every operation
  returns the adapter, the cache and the trace of events it leaves behind, also when it raises.
\<close>

datatype error =
    AssertionError
  | ValueError string
  | NameError string
  | NotFound
  | NotImplementedError

text \<open>A chat message is the dictionary \<^verbatim>\<open>{"role": ..., "content": ...}\<close>; the role is a string.\<close>

record message =
  role :: string
  content :: string

text \<open>
  The keyword arguments of \<^verbatim>\<open>client.chat.completions.create\<close>. The temperature is a Python
  float that the code only stores and forwards; no arithmetic is done on it.
\<close>

record request =
  req_model :: string
  req_messages :: "message list"
  req_temperature :: real
  req_max_tokens :: int

text \<open>
  What one call of \<^verbatim>\<open>client.chat.completions.create\<close> does: it returns a completion
  (of which only \<^verbatim>\<open>choices[0].message.content\<close> is read), raises
  \<^verbatim>\<open>openai.RateLimitError\<close>, or raises any other exception.
\<close>

datatype outcome = Completion string | RateLimitError | OtherException

text \<open>
  The environment is an oracle: \<open>create env i req\<close> is the outcome of the network call that
  is the \<open>i\<close>-th one made so far (counting from 0) and carries the request \<open>req\<close>;
  \<open>log_append_ok env i\<close> tells whether appending to the debug file \<^verbatim>\<open>temp2.txt\<close> after
  that call goes through (the OpenRouter variant writes the file inside its \<^verbatim>\<open>try\<close> block,
  so a write that raises, for lack of a writable file or of a text in the completion, is
  caught like any other exception).
\<close>

record env =
  create :: "nat \<Rightarrow> request \<Rightarrow> outcome"
  log_append_ok :: "nat \<Rightarrow> bool"

text \<open>
  The observable events, in the order in which they happen: a network call with its request,
  \<^verbatim>\<open>time.sleep(n)\<close>, and a completed append of a response text to \<^verbatim>\<open>temp2.txt\<close>.
  Console output is not modelled.
\<close>

datatype event = Create request | Sleep nat | Append string

fun calls_made :: "event list \<Rightarrow> nat" where
  "calls_made [] = 0"
| "calls_made (Create req # tr) = Suc (calls_made tr)"
| "calls_made (Sleep n # tr) = calls_made tr"
| "calls_made (Append s # tr) = calls_made tr"

fun requests_made :: "event list \<Rightarrow> request list" where
  "requests_made [] = []"
| "requests_made (Create req # tr) = req # requests_made tr"
| "requests_made (Sleep n # tr) = requests_made tr"
| "requests_made (Append s # tr) = requests_made tr"

fun sleeps_made :: "event list \<Rightarrow> nat list" where
  "sleeps_made [] = []"
| "sleeps_made (Create req # tr) = sleeps_made tr"
| "sleeps_made (Sleep n # tr) = n # sleeps_made tr"
| "sleeps_made (Append s # tr) = sleeps_made tr"

text \<open>
  The two adapter classes have the same fields; \<open>variant\<close> is the class of the object, on
  which the call \<^verbatim>\<open>self.invoke_model_with_messages\<close> dispatches. The client object (endpoint
  and credentials) takes no part in the properties below and is left out; the cache handed
  out by \<^verbatim>\<open>LLMCachePool.get\<close> is shared between adapters and is passed as a state of its own.
\<close>

datatype variant = VLLM | OPENROUTER

record adapter =
  variant :: variant
  model :: string
  temperature :: real
  max_tokens :: int
  count_queries :: int

section \<open>Strings\<close>

text \<open>
  \<^verbatim>\<open>str.isspace\<close> on the code points below 256, and \<^verbatim>\<open>str.strip()\<close>, which removes
  leading and trailing whitespace.
\<close>

definition isspace :: "char \<Rightarrow> bool" where
  "isspace c = (of_char c \<in> set [9, 10, 11, 12, 13, 28, 29, 30, 31, 32, 133, 160 :: nat])"

definition strip :: "string \<Rightarrow> string" where
  "strip s = rev (dropWhile isspace (rev (dropWhile isspace s)))"

text \<open>\<^verbatim>\<open>sub in s\<close> on strings: \<open>sub\<close> occurs in \<open>s\<close> as a contiguous substring.\<close>

fun py_in :: "string \<Rightarrow> string \<Rightarrow> bool" where
  "py_in sub [] = (sub = [])"
| "py_in sub (c # cs) = (take (length sub) (c # cs) = sub \<or> py_in sub cs)"

section \<open>The retry loop: \<^verbatim>\<open>invoke_model_with_messages\<close>\<close>

text \<open>
  The first statements of the \<^verbatim>\<open>try\<close> block, the same in both variants: a system message
  is put in front when the system prompt is not \<^verbatim>\<open>None\<close> and has a character left after
  \<^verbatim>\<open>strip()\<close>; every message whose role is not \<^verbatim>\<open>'user'\<close> becomes an assistant message.
\<close>

definition build_new_messages :: "string option \<Rightarrow> message list \<Rightarrow> message list" where
  "build_new_messages system_prompt messages =
     (case system_prompt of
        None \<Rightarrow> []
      | Some sp \<Rightarrow>
          if length (strip sp) > 0 then [\<lparr>role = ''system'', content = sp\<rparr>] else [])
     @ map (\<lambda>msg. if role msg = ''user''
                   then \<lparr>role = ''user'', content = content msg\<rparr>
                   else \<lparr>role = ''assistant'', content = content msg\<rparr>) messages"

text \<open>
  The OpenRouter variant (lines 83 to 128). The loop \<^verbatim>\<open>while attempts < max_attempts\<close> is
  the recursion on \<open>attempts\<close>. The request is built from \<^verbatim>\<open>messages\<close>, the argument of the
  function, as line 106 has it: \<^verbatim>\<open>new_messages\<close> is computed and not passed on. After a
  completion the text is appended to the debug file and returned; a rate-limit error sleeps
  5 seconds; any other exception (a failed append is one) goes round the loop at once.
\<close>

function openrouter_attempts ::
  "env \<Rightarrow> adapter \<Rightarrow> string option \<Rightarrow> message list \<Rightarrow> int \<Rightarrow> real \<Rightarrow> int \<Rightarrow> int \<Rightarrow>
   event list \<Rightarrow> (error + string) \<times> event list" where
  "openrouter_attempts env self system_prompt messages max_gen_len temp max_attempts attempts tr =
     (if attempts < max_attempts then
        (let new_messages = build_new_messages system_prompt messages;
             req = \<lparr>req_model = model self, req_messages = messages,
                    req_temperature = temp, req_max_tokens = max_gen_len\<rparr>
         in case create env (calls_made tr) req of
              Completion text \<Rightarrow>
                if log_append_ok env (calls_made tr)
                then (Inr text, tr @ [Create req, Append text])
                else openrouter_attempts env self system_prompt messages max_gen_len temp
                       max_attempts (attempts + 1) (tr @ [Create req])
            | RateLimitError \<Rightarrow>
                openrouter_attempts env self system_prompt messages max_gen_len temp
                  max_attempts (attempts + 1) (tr @ [Create req, Sleep 5])
            | OtherException \<Rightarrow>
                openrouter_attempts env self system_prompt messages max_gen_len temp
                  max_attempts (attempts + 1) (tr @ [Create req]))
      else (Inl (ValueError ''Ratelimit exceeded too many times!''), tr))"
  by pat_completeness auto
termination
  by (relation "measure (\<lambda>(env, self, system_prompt, messages, max_gen_len, temp,
                           max_attempts, attempts, tr). nat (max_attempts - attempts))") auto

declare openrouter_attempts.simps [simp del]

text \<open>
  The VLLM variant (lines 85 to 122). The bound is the literal 10. The \<^verbatim>\<open>try\<close> block ends
  with the assignment of the response: there is no \<^verbatim>\<open>return\<close>, so after a completion the
  loop goes on. The handler of the other exceptions formats \<^verbatim>\<open>max_attempts\<close>, a name that
  is neither a parameter nor a local nor a global of the module, so evaluating it raises
  \<^verbatim>\<open>NameError\<close>, which leaves the function.
\<close>

function vllm_attempts ::
  "env \<Rightarrow> adapter \<Rightarrow> string option \<Rightarrow> message list \<Rightarrow> int \<Rightarrow> real \<Rightarrow> int \<Rightarrow>
   event list \<Rightarrow> (error + string) \<times> event list" where
  "vllm_attempts env self system_prompt messages max_gen_len temp attempts tr =
     (if attempts < 10 then
        (let new_messages = build_new_messages system_prompt messages;
             req = \<lparr>req_model = model self, req_messages = messages,
                    req_temperature = temp, req_max_tokens = max_gen_len\<rparr>
         in case create env (calls_made tr) req of
              Completion text \<Rightarrow>
                vllm_attempts env self system_prompt messages max_gen_len temp
                  (attempts + 1) (tr @ [Create req])
            | RateLimitError \<Rightarrow>
                vllm_attempts env self system_prompt messages max_gen_len temp
                  (attempts + 1) (tr @ [Create req, Sleep 5])
            | OtherException \<Rightarrow>
                (Inl (NameError ''max_attempts''), tr @ [Create req]))
      else (Inl (ValueError ''Ratelimit exceeded too many times!''), tr))"
  by pat_completeness auto
termination
  by (relation "measure (\<lambda>(env, self, system_prompt, messages, max_gen_len, temp,
                           attempts, tr). nat (10 - attempts))") auto

declare vllm_attempts.simps [simp del]

text \<open>Both loops start with \<^verbatim>\<open>attempts = 0\<close>.\<close>

definition openrouter_invoke_model_with_messages ::
  "env \<Rightarrow> adapter \<Rightarrow> string option \<Rightarrow> message list \<Rightarrow> int \<Rightarrow> real \<Rightarrow> int \<Rightarrow>
   event list \<Rightarrow> (error + string) \<times> event list" where
  "openrouter_invoke_model_with_messages env self system_prompt messages max_gen_len temp
     max_attempts tr =
     openrouter_attempts env self system_prompt messages max_gen_len temp max_attempts 0 tr"

definition vllm_invoke_model_with_messages ::
  "env \<Rightarrow> adapter \<Rightarrow> string option \<Rightarrow> message list \<Rightarrow> int \<Rightarrow> real \<Rightarrow>
   event list \<Rightarrow> (error + string) \<times> event list" where
  "vllm_invoke_model_with_messages env self system_prompt messages max_gen_len temp tr =
     vllm_attempts env self system_prompt messages max_gen_len temp 0 tr"

text \<open>
  The call \<^verbatim>\<open>self.invoke_model_with_messages(system_prompt=..., messages=..., max_gen_len=...,
  temperature=...)\<close> of \<^verbatim>\<open>query\<close> and \<^verbatim>\<open>query_history\<close>: the method of the object's class,
  with \<^verbatim>\<open>max_attempts\<close> left at its default 10 in the OpenRouter variant.
\<close>

definition invoke_model_with_messages ::
  "env \<Rightarrow> adapter \<Rightarrow> string option \<Rightarrow> message list \<Rightarrow> int \<Rightarrow> real \<Rightarrow>
   event list \<Rightarrow> (error + string) \<times> event list" where
  "invoke_model_with_messages env self system_prompt messages max_gen_len temp tr =
     (case variant self of
        VLLM \<Rightarrow> vllm_invoke_model_with_messages env self system_prompt messages max_gen_len temp tr
      | OPENROUTER \<Rightarrow>
          openrouter_invoke_model_with_messages env self system_prompt messages max_gen_len
            temp 10 tr)"

section \<open>The response cache and the hasher\<close>

text \<open>
  Modelled from the spec: the class \<^verbatim>\<open>LLMHashCache\<close> (module
  \<^verbatim>\<open>data_gen.llm.cache.llm_hash_cache\<close>) is not among the source files. The spec describes
  it as a mapping from (model, fingerprint) to a cache entry holding the request payload and
  the response text, with one entry for a key. The payload \<^verbatim>\<open>json.dumps(messages)\<close> is kept
  as the message list it serialises.
\<close>

record cache_entry =
  request_payload :: "message list"
  response_text :: string

type_synonym 'fp llm_hash_cache = "string \<times> 'fp \<Rightarrow> cache_entry option"

text \<open>
  Modelled from the spec: \<^verbatim>\<open>LLMHashCache.has_hash(messages_hash, model)\<close>, the spec's
  \<^verbatim>\<open>has(fingerprint, model)\<close>: whether the cache holds an entry for the key.
\<close>

definition has_hash :: "'fp llm_hash_cache \<Rightarrow> 'fp \<Rightarrow> string \<Rightarrow> bool" where
  "has_hash cache messages_hash model_name = (cache (model_name, messages_hash) \<noteq> None)"

text \<open>
  Modelled from the spec: \<^verbatim>\<open>LLMHashCache.add_result(messages_hash, payload, response, model)\<close>,
  the spec's \<^verbatim>\<open>add\<close>: the entry of the key becomes the given payload and response (a second
  add for the same key overwrites).
\<close>

definition add_result ::
  "'fp llm_hash_cache \<Rightarrow> 'fp \<Rightarrow> message list \<Rightarrow> string \<Rightarrow> string \<Rightarrow> 'fp llm_hash_cache" where
  "add_result cache messages_hash payload resp model_name =
     cache((model_name, messages_hash) \<mapsto>
       \<lparr>request_payload = payload, response_text = resp\<rparr>)"

text \<open>
  Modelled from the spec: \<^verbatim>\<open>LLMHashCache.get_result(messages_hash, model)\<close>, the spec's
  \<^verbatim>\<open>get\<close>: the response text stored for the key, and the failure NotFound when there is
  none.
\<close>

definition get_result :: "'fp llm_hash_cache \<Rightarrow> 'fp \<Rightarrow> string \<Rightarrow> error + string" where
  "get_result cache messages_hash model_name =
     (case cache (model_name, messages_hash) of
        None \<Rightarrow> Inl NotFound
      | Some entry \<Rightarrow> Inr (response_text entry))"

text \<open>
  The function \<^verbatim>\<open>hash_messages\<close> of \<^verbatim>\<open>data_gen.util.misc\<close> is not among the source files
  either. The adapters take it as a parameter \<open>hash_messages\<close> of the type below: the
  messages and the optional keyword argument \<^verbatim>\<open>system_prompt\<close>, \<open>None\<close> when the call
  leaves it out or passes \<^verbatim>\<open>None\<close>. The fingerprint type is left open.
\<close>

type_synonym 'fp hasher = "message list \<Rightarrow> string option \<Rightarrow> 'fp"

text \<open>
  Modelled from the spec: \<^verbatim>\<open>hash_messages\<close> is missing from the source files; the spec asks
  of the hasher that it be a pure function of the conversation and the optional system
  prompt that tells apart conversations differing in role, content or turn order. The
  model that tells every two inputs apart returns the canonical form itself.
\<close>

definition canonical_form :: "(string option \<times> (string \<times> string) list) hasher" where
  "canonical_form messages system_prompt =
     (system_prompt, map (\<lambda>msg. (role msg, content msg)) messages)"

section \<open>The adapters: \<^verbatim>\<open>query\<close> and \<^verbatim>\<open>query_history\<close>\<close>

text \<open>The dictionary \<^verbatim>\<open>{'model_dump': None, 'response': response}\<close> that both return.\<close>

record reply =
  model_dump :: "unit option"
  response :: string

text \<open>
  The pieces that \<^verbatim>\<open>query\<close> and \<^verbatim>\<open>query_history\<close> share: the statement
  \<^verbatim>\<open>self.count_queries += 1\<close>, and the expression \<^verbatim>\<open>system_prompt or ""\<close>, which is the
  string itself, or the empty string for \<^verbatim>\<open>None\<close>.
\<close>

definition count_query :: "adapter \<Rightarrow> adapter" where
  "count_query self = self\<lparr>count_queries := count_queries self + 1\<rparr>"

definition or_empty :: "string option \<Rightarrow> string" where
  "or_empty system_prompt = (case system_prompt of None \<Rightarrow> '''' | Some sp \<Rightarrow> sp)"

text \<open>The message list of \<^verbatim>\<open>query\<close>: the user prompt as the only turn.\<close>

definition query_messages :: "string \<Rightarrow> message list" where
  "query_messages user_prompt = [\<lparr>role = ''user'', content = user_prompt\<rparr>]"

text \<open>
  \<^verbatim>\<open>query\<close> (the same text in both classes). The counter is incremented before the
  assertion, and the object keeps the new count when the call raises. The parameter
  \<^verbatim>\<open>format_prompt\<close> is never read and is left out. The hash is taken of the messages alone:
  the call \<^verbatim>\<open>hash_messages(messages)\<close> passes no system prompt.
\<close>

definition query ::
  "'fp hasher \<Rightarrow> env \<Rightarrow> adapter \<Rightarrow> string option \<Rightarrow> string \<Rightarrow> 'fp llm_hash_cache \<Rightarrow>
   event list \<Rightarrow> (error + reply) \<times> adapter \<times> 'fp llm_hash_cache \<times> event list" where
  "query hash_messages env self0 system_prompt user_prompt cache tr =
     (let self = count_query self0 in
      if \<not> (system_prompt = None \<or> system_prompt = Some '''')
      then (Inl AssertionError, self, cache, tr)
      else
        let messages = query_messages user_prompt;
            messages_hash = hash_messages messages None
        in if \<not> has_hash cache messages_hash (model self) then
             (case invoke_model_with_messages env self (Some (or_empty system_prompt)) messages
                     (max_tokens self) (temperature self) tr of
                (Inl err, tr') \<Rightarrow> (Inl err, self, cache, tr')
              | (Inr resp, tr') \<Rightarrow>
                  (let cache' = add_result cache messages_hash messages resp (model self)
                   in case get_result cache' messages_hash (model self) of
                        Inl err \<Rightarrow> (Inl err, self, cache', tr')
                      | Inr resp \<Rightarrow>
                          (Inr \<lparr>model_dump = None, response = resp\<rparr>, self, cache', tr')))
           else
             (case get_result cache messages_hash (model self) of
                Inl err \<Rightarrow> (Inl err, self, cache, tr)
              | Inr resp \<Rightarrow>
                  (Inr \<lparr>model_dump = None, response = resp\<rparr>, self, cache, tr)))"

text \<open>
  The loop of \<^verbatim>\<open>query_history\<close> over the history: a user and an assistant message for
  every pair, in order; then the prompt as the last user message.
\<close>

fun history_messages :: "(string \<times> string) list \<Rightarrow> message list" where
  "history_messages [] = []"
| "history_messages ((llm_input, llm_output) # history) =
     \<lparr>role = ''user'', content = llm_input\<rparr> #
     \<lparr>role = ''assistant'', content = llm_output\<rparr> # history_messages history"

definition query_history_messages :: "(string \<times> string) list \<Rightarrow> string \<Rightarrow> message list" where
  "query_history_messages history prompt =
     history_messages history @ [\<lparr>role = ''user'', content = prompt\<rparr>]"

text \<open>
  \<^verbatim>\<open>query_history\<close> (the same text in both classes). There is no assertion here, and the
  system prompt is passed on to the hasher.
\<close>

definition query_history ::
  "'fp hasher \<Rightarrow> env \<Rightarrow> adapter \<Rightarrow> string option \<Rightarrow> string \<Rightarrow> (string \<times> string) list \<Rightarrow>
   'fp llm_hash_cache \<Rightarrow> event list \<Rightarrow>
   (error + reply) \<times> adapter \<times> 'fp llm_hash_cache \<times> event list" where
  "query_history hash_messages env self0 system_prompt prompt history cache tr =
     (let self = count_query self0;
          messages = query_history_messages history prompt;
          messages_hash = hash_messages messages system_prompt
      in if \<not> has_hash cache messages_hash (model self) then
           (case invoke_model_with_messages env self (Some (or_empty system_prompt)) messages
                   (max_tokens self) (temperature self) tr of
              (Inl err, tr') \<Rightarrow> (Inl err, self, cache, tr')
            | (Inr resp, tr') \<Rightarrow>
                (let cache' = add_result cache messages_hash messages resp (model self)
                 in case get_result cache' messages_hash (model self) of
                      Inl err \<Rightarrow> (Inl err, self, cache', tr')
                    | Inr resp \<Rightarrow>
                        (Inr \<lparr>model_dump = None, response = resp\<rparr>, self, cache', tr')))
         else
           (case get_result cache messages_hash (model self) of
              Inl err \<Rightarrow> (Inl err, self, cache, tr)
            | Inr resp \<Rightarrow>
                (Inr \<lparr>model_dump = None, response = resp\<rparr>, self, cache, tr)))"

section \<open>The factory \<^verbatim>\<open>get_llm\<close>\<close>

text \<open>
  Modelled from the spec: the base class \<^verbatim>\<open>BaseLLMWrapper\<close>, whose \<^verbatim>\<open>__init__\<close> both
  constructors call first, is not among the source files; the spec speaks of a per-instance
  query counter, which a fresh instance starts at 0.
\<close>

definition initial_count_queries :: int where
  "initial_count_queries = 0"

text \<open>The constructors of the two classes store their three arguments.\<close>

definition VLLMWrapper :: "string \<Rightarrow> real \<Rightarrow> int \<Rightarrow> adapter" where
  "VLLMWrapper model_version temp max_toks =
     \<lparr>variant = VLLM, model = model_version, temperature = temp, max_tokens = max_toks,
      count_queries = initial_count_queries\<rparr>"

definition OPENROUTERWrapper :: "string \<Rightarrow> real \<Rightarrow> int \<Rightarrow> adapter" where
  "OPENROUTERWrapper model_version temp max_toks =
     \<lparr>variant = OPENROUTER, model = model_version, temperature = temp, max_tokens = max_toks,
      count_queries = initial_count_queries\<rparr>"

text \<open>
  The classes \<^verbatim>\<open>ClaudeWrapper\<close> and \<^verbatim>\<open>GPTWrapper\<close> are not among the source files; what
  \<^verbatim>\<open>get_llm\<close> returns for them is the constructor call with its three arguments.
\<close>

datatype llm =
    ClaudeWrapper string real int
  | GPTWrapper string real int
  | Wrapper adapter

text \<open>
  \<^verbatim>\<open>get_llm\<close>: the branches in the order of the source. \<^verbatim>\<open>min((max_tokens, 40960))\<close> is the
  minimum of the pair; \<^verbatim>\<open>model_name[5:]\<close> and \<^verbatim>\<open>model_name[11:]\<close> drop the first 5 and 11
  characters.
\<close>

definition get_llm :: "string \<Rightarrow> real \<Rightarrow> int \<Rightarrow> error + llm" where
  "get_llm model_name temp max_toks =
     (if model_name = ''claude-35'' then Inr (ClaudeWrapper ''3.5'' temp max_toks)
      else if model_name = ''gpt4-turbo''
        then Inr (GPTWrapper ''gpt-4-turbo-2024-04-09'' temp (min max_toks 40960))
      else if model_name = ''gpt4-o''
        then Inr (GPTWrapper ''gpt-4o-2024-11-20'' temp (min max_toks 40960))
      else if py_in ''vllm/'' model_name
        then Inr (Wrapper (VLLMWrapper (drop 5 model_name) temp (min max_toks 40960)))
      else if py_in ''openrouter/'' model_name
        then Inr (Wrapper (OPENROUTERWrapper (drop 11 model_name) temp (min max_toks 40960)))
      else Inl NotImplementedError)"

section \<open>Backends and adapters of the examples\<close>

text \<open>
  An attempt of the OpenRouter variant fails when the network call raises, or when it
  returns and the append to the debug file raises.
\<close>

definition attempt_fails :: "env \<Rightarrow> nat \<Rightarrow> request \<Rightarrow> bool" where
  "attempt_fails env i req =
     (case create env i req of
        Completion text \<Rightarrow> \<not> log_append_ok env i
      | RateLimitError \<Rightarrow> True
      | OtherException \<Rightarrow> True)"

text \<open>The substitute backend of the spec's scenario: every call returns the text 4.\<close>

definition answers_four :: env where
  "answers_four = \<lparr>create = (\<lambda>i req. Completion ''4''), log_append_ok = (\<lambda>i. True)\<rparr>"

text \<open>A backend that is rate-limited on every call.\<close>

definition always_rate_limited :: env where
  "always_rate_limited = \<lparr>create = (\<lambda>i req. RateLimitError), log_append_ok = (\<lambda>i. True)\<rparr>"

text \<open>A backend that is rate-limited on the first two calls and answers from the third on.\<close>

definition limited_twice :: env where
  "limited_twice =
     \<lparr>create = (\<lambda>i req. if i < 2 then RateLimitError else Completion ''ok''),
      log_append_ok = (\<lambda>i. True)\<rparr>"

text \<open>A backend whose every call raises an exception other than the rate-limit error.\<close>

definition always_broken :: env where
  "always_broken = \<lparr>create = (\<lambda>i req. OtherException), log_append_ok = (\<lambda>i. True)\<rparr>"

text \<open>A backend that is rate-limited on the first call and raises another exception after.\<close>

definition limited_then_broken :: env where
  "limited_then_broken =
     \<lparr>create = (\<lambda>i req. if i < 1 then RateLimitError else OtherException),
      log_append_ok = (\<lambda>i. True)\<rparr>"

text \<open>
  The adapters of the examples: model \<open>m\<close>, temperature 0.0 and 50 tokens, as in the spec's
  scenario.
\<close>

definition openrouter_m :: adapter where
  "openrouter_m = OPENROUTERWrapper ''m'' 0 50"

definition vllm_m :: adapter where
  "vllm_m = VLLMWrapper ''m'' 0 50"

text \<open>The request that carries the single user turn \<open>hi\<close> for these adapters.\<close>

definition hi_request :: request where
  "hi_request = \<lparr>req_model = ''m'', req_messages = query_messages ''hi'',
                  req_temperature = 0, req_max_tokens = 50\<rparr>"

text \<open>
  The cache of the scenario after the first call: the answer 4 to the user turn \<open>hi\<close>,
  stored for the model \<open>m\<close> under the canonical form of the messages with no system prompt.
\<close>

definition hi_cache :: "(string option \<times> (string \<times> string) list) llm_hash_cache" where
  "hi_cache = add_result Map.empty (canonical_form (query_messages ''hi'') None)
                (query_messages ''hi'') ''4'' ''m''"

text \<open>The definitions that the evaluation of a concrete call unfolds.\<close>

lemmas call_defs =
  invoke_model_with_messages_def vllm_invoke_model_with_messages_def
  openrouter_invoke_model_with_messages_def VLLMWrapper_def OPENROUTERWrapper_def
  initial_count_queries_def query_messages_def query_history_messages_def count_query_def
  or_empty_def has_hash_def add_result_def get_result_def

section \<open>Properties of the retry loops\<close>

lemma calls_made_append: "calls_made (tr @ tr') = calls_made tr + calls_made tr'"
  by (induction tr rule: calls_made.induct) simp_all

lemma sleeps_made_append: "sleeps_made (tr @ tr') = sleeps_made tr @ sleeps_made tr'"
  by (induction tr rule: sleeps_made.induct) simp_all

text \<open>One turn of the OpenRouter loop, by the outcome of the attempt.\<close>

lemma openrouter_attempts_success:
  assumes "attempts < max_attempts"
    and "create env (calls_made tr)
           \<lparr>req_model = model self, req_messages = messages,
            req_temperature = temp, req_max_tokens = max_gen_len\<rparr> = Completion text"
    and "log_append_ok env (calls_made tr)"
  shows "openrouter_attempts env self system_prompt messages max_gen_len temp max_attempts
           attempts tr =
         (Inr text, tr @ [Create \<lparr>req_model = model self, req_messages = messages,
                                 req_temperature = temp, req_max_tokens = max_gen_len\<rparr>,
                          Append text])"
  using assms by (subst openrouter_attempts.simps) (simp add: Let_def)

lemma openrouter_attempts_rate_limited:
  assumes "attempts < max_attempts"
    and "create env (calls_made tr)
           \<lparr>req_model = model self, req_messages = messages,
            req_temperature = temp, req_max_tokens = max_gen_len\<rparr> = RateLimitError"
  shows "openrouter_attempts env self system_prompt messages max_gen_len temp max_attempts
           attempts tr =
         openrouter_attempts env self system_prompt messages max_gen_len temp max_attempts
           (attempts + 1)
           (tr @ [Create \<lparr>req_model = model self, req_messages = messages,
                          req_temperature = temp, req_max_tokens = max_gen_len\<rparr>, Sleep 5])"
  using assms by (subst openrouter_attempts.simps) (simp add: Let_def)

lemma openrouter_attempts_other_exception:
  assumes "attempts < max_attempts"
    and "create env (calls_made tr)
           \<lparr>req_model = model self, req_messages = messages,
            req_temperature = temp, req_max_tokens = max_gen_len\<rparr> = OtherException"
  shows "openrouter_attempts env self system_prompt messages max_gen_len temp max_attempts
           attempts tr =
         openrouter_attempts env self system_prompt messages max_gen_len temp max_attempts
           (attempts + 1)
           (tr @ [Create \<lparr>req_model = model self, req_messages = messages,
                          req_temperature = temp, req_max_tokens = max_gen_len\<rparr>])"
  using assms by (subst openrouter_attempts.simps) (simp add: Let_def)

text \<open>Neither loop makes more network calls than its bound leaves.\<close>

lemma vllm_attempts_calls_le:
  "calls_made (snd (vllm_attempts env self system_prompt messages max_gen_len temp attempts tr))
     \<le> calls_made tr + nat (10 - attempts)"
proof (induction "nat (10 - attempts)" arbitrary: attempts tr)
  case 0
  then show ?case by (subst vllm_attempts.simps) simp
next
  case (Suc n)
  then have n: "n = nat (10 - (attempts + 1))" and lt: "attempts < 10" by linarith+
  have step: "Suc (nat (10 - (attempts + 1))) = nat (10 - attempts)" using lt by linarith
  let ?req = "\<lparr>req_model = model self, req_messages = messages,
              req_temperature = temp, req_max_tokens = max_gen_len\<rparr>"
  show ?case
    by (subst vllm_attempts.simps)
       (use Suc(1)[OF n, of "tr @ [Create ?req]"] Suc(1)[OF n, of "tr @ [Create ?req, Sleep 5]"]
          step in \<open>simp add: Let_def calls_made_append split: outcome.splits\<close>)
qed

lemma openrouter_attempts_calls_le:
  "calls_made (snd (openrouter_attempts env self system_prompt messages max_gen_len temp
                      max_attempts attempts tr))
     \<le> calls_made tr + nat (max_attempts - attempts)"
proof (induction "nat (max_attempts - attempts)" arbitrary: attempts tr)
  case 0
  then show ?case by (subst openrouter_attempts.simps) simp
next
  case (Suc n)
  then have n: "n = nat (max_attempts - (attempts + 1))" and lt: "attempts < max_attempts"
    by linarith+
  have step: "Suc (nat (max_attempts - (attempts + 1))) = nat (max_attempts - attempts)"
    using lt by linarith
  let ?req = "\<lparr>req_model = model self, req_messages = messages,
              req_temperature = temp, req_max_tokens = max_gen_len\<rparr>"
  show ?case
    by (subst openrouter_attempts.simps)
       (use Suc(1)[OF n, of "tr @ [Create ?req]"] Suc(1)[OF n, of "tr @ [Create ?req, Sleep 5]"]
          step in \<open>simp add: Let_def calls_made_append split: outcome.splits\<close>)
qed

text \<open>
  When every attempt fails, the OpenRouter loop raises the \<^verbatim>\<open>ValueError\<close> after as many
  network calls as the bound leaves.
\<close>

lemma openrouter_attempts_exhausted:
  assumes "\<And>i. calls_made tr \<le> i \<Longrightarrow> attempt_fails env i
             \<lparr>req_model = model self, req_messages = messages,
              req_temperature = temp, req_max_tokens = max_gen_len\<rparr>"
  shows "fst (openrouter_attempts env self system_prompt messages max_gen_len temp
                max_attempts attempts tr) = Inl (ValueError ''Ratelimit exceeded too many times!'')
       \<and> calls_made (snd (openrouter_attempts env self system_prompt messages max_gen_len temp
                max_attempts attempts tr)) = calls_made tr + nat (max_attempts - attempts)"
  using assms
proof (induction "nat (max_attempts - attempts)" arbitrary: attempts tr)
  case 0
  then show ?case by (subst (1 2) openrouter_attempts.simps) simp
next
  case (Suc n)
  then have n: "n = nat (max_attempts - (attempts + 1))" and lt: "attempts < max_attempts"
    by linarith+
  have step: "Suc (nat (max_attempts - (attempts + 1))) = nat (max_attempts - attempts)"
    using lt by linarith
  let ?req = "\<lparr>req_model = model self, req_messages = messages,
              req_temperature = temp, req_max_tokens = max_gen_len\<rparr>"
  have here: "attempt_fails env (calls_made tr) ?req" using Suc.prems by simp
  let ?P = "\<lambda>a t. fst (openrouter_attempts env self system_prompt messages max_gen_len temp
                max_attempts a t) = Inl (ValueError ''Ratelimit exceeded too many times!'')
       \<and> calls_made (snd (openrouter_attempts env self system_prompt messages max_gen_len temp
                max_attempts a t)) = calls_made t + nat (max_attempts - a)"
  have ih1: "?P (attempts + 1) (tr @ [Create ?req])"
    by (rule Suc.hyps(1)[OF n]) (use Suc.prems in \<open>simp add: calls_made_append\<close>)
  have ih2: "?P (attempts + 1) (tr @ [Create ?req, Sleep 5])"
    by (rule Suc.hyps(1)[OF n]) (use Suc.prems in \<open>simp add: calls_made_append\<close>)
  show ?case
    by (subst (1 2) openrouter_attempts.simps)
       (use ih1 ih2 step here lt in
         \<open>simp add: Let_def calls_made_append attempt_fails_def split: outcome.splits\<close>)
qed

text \<open>The VLLM loop has no way out but an exception.\<close>

lemma vllm_attempts_never_returns:
  "\<exists>err. fst (vllm_attempts env self system_prompt messages max_gen_len temp attempts tr) = Inl err"
proof (induction "nat (10 - attempts)" arbitrary: attempts tr)
  case 0
  then show ?case by (subst vllm_attempts.simps) simp
next
  case (Suc n)
  then have "n = nat (10 - (attempts + 1))" by linarith
  from Suc(1)[OF this] show ?case
    by (subst vllm_attempts.simps) (simp add: Let_def split: outcome.splits)
qed

text \<open>The exceptions that leave the loops.\<close>

lemma vllm_attempts_raises:
  "fst (vllm_attempts env self system_prompt messages max_gen_len temp attempts tr) = Inl err
   \<Longrightarrow> err = ValueError ''Ratelimit exceeded too many times!'' \<or> err = NameError ''max_attempts''"
proof (induction "nat (10 - attempts)" arbitrary: attempts tr)
  case 0
  then show ?case by (subst (asm) vllm_attempts.simps) simp
next
  case (Suc n)
  then have n: "n = nat (10 - (attempts + 1))" and lt: "attempts < 10" by linarith+
  from Suc.prems lt Suc.hyps(1)[OF n] show ?case
    by (subst (asm) vllm_attempts.simps) (auto simp: Let_def split: outcome.splits)
qed

lemma openrouter_attempts_raises:
  "fst (openrouter_attempts env self system_prompt messages max_gen_len temp max_attempts
          attempts tr) = Inl err
   \<Longrightarrow> err = ValueError ''Ratelimit exceeded too many times!''"
proof (induction "nat (max_attempts - attempts)" arbitrary: attempts tr)
  case 0
  then show ?case by (subst (asm) openrouter_attempts.simps) simp
next
  case (Suc n)
  then have n: "n = nat (max_attempts - (attempts + 1))" and lt: "attempts < max_attempts"
    by linarith+
  from Suc.prems lt Suc.hyps(1)[OF n] show ?case
    by (subst (asm) openrouter_attempts.simps)
       (auto simp: Let_def split: outcome.splits if_splits)
qed

lemma invoke_model_with_messages_raises:
  "fst (invoke_model_with_messages env self system_prompt messages max_gen_len temp tr) = Inl err
   \<Longrightarrow> err = ValueError ''Ratelimit exceeded too many times!'' \<or> err = NameError ''max_attempts''"
  by (auto simp: invoke_model_with_messages_def vllm_invoke_model_with_messages_def
        openrouter_invoke_model_with_messages_def
      split: variant.splits dest: vllm_attempts_raises openrouter_attempts_raises)

text \<open>Hence an invocation on an adapter of the class \<^verbatim>\<open>VLLMWrapper\<close> always raises.\<close>

lemma vllm_invoke_never_returns:
  "variant self = VLLM \<Longrightarrow>
   \<exists>err. fst (invoke_model_with_messages env self system_prompt messages max_gen_len temp tr)
            = Inl err"
  using vllm_attempts_never_returns[of env self system_prompt messages max_gen_len temp 0 tr]
  by (simp add: invoke_model_with_messages_def vllm_invoke_model_with_messages_def)

text \<open>
  Every event a loop adds is a network call with the request built from the arguments, a
  sleep of 5 seconds, or an append to the debug file.
\<close>

lemma vllm_attempts_events:
  "set (snd (vllm_attempts env self system_prompt messages max_gen_len temp attempts tr))
     \<subseteq> set tr \<union> {Create \<lparr>req_model = model self, req_messages = messages,
                            req_temperature = temp, req_max_tokens = max_gen_len\<rparr>, Sleep 5}"
proof (induction "nat (10 - attempts)" arbitrary: attempts tr)
  case 0
  then show ?case by (subst vllm_attempts.simps) auto
next
  case (Suc n)
  then have n: "n = nat (10 - (attempts + 1))" by linarith
  let ?req = "\<lparr>req_model = model self, req_messages = messages,
              req_temperature = temp, req_max_tokens = max_gen_len\<rparr>"
  show ?case
    by (subst vllm_attempts.simps)
       (use Suc(1)[OF n, of "tr @ [Create ?req]"] Suc(1)[OF n, of "tr @ [Create ?req, Sleep 5]"]
         in \<open>auto simp: Let_def split: outcome.splits\<close>)
qed

lemma openrouter_attempts_events:
  "set (snd (openrouter_attempts env self system_prompt messages max_gen_len temp max_attempts
               attempts tr))
     \<subseteq> set tr \<union> {Create \<lparr>req_model = model self, req_messages = messages,
                            req_temperature = temp, req_max_tokens = max_gen_len\<rparr>, Sleep 5}
         \<union> range Append"
proof (induction "nat (max_attempts - attempts)" arbitrary: attempts tr)
  case 0
  then show ?case by (subst openrouter_attempts.simps) auto
next
  case (Suc n)
  then have n: "n = nat (max_attempts - (attempts + 1))" by linarith
  let ?req = "\<lparr>req_model = model self, req_messages = messages,
              req_temperature = temp, req_max_tokens = max_gen_len\<rparr>"
  show ?case
    by (subst openrouter_attempts.simps)
       (use Suc(1)[OF n, of "tr @ [Create ?req]"] Suc(1)[OF n, of "tr @ [Create ?req, Sleep 5]"]
         in \<open>auto simp: Let_def split: outcome.splits\<close>)
qed

lemma invoke_model_with_messages_events:
  "set (snd (invoke_model_with_messages env self system_prompt messages max_gen_len temp tr))
     \<subseteq> set tr \<union> {Create \<lparr>req_model = model self, req_messages = messages,
                            req_temperature = temp, req_max_tokens = max_gen_len\<rparr>, Sleep 5}
         \<union> range Append"
proof (cases "variant self")
  case VLLM
  then show ?thesis
    using vllm_attempts_events[of env self system_prompt messages max_gen_len temp 0 tr]
    by (auto simp: invoke_model_with_messages_def vllm_invoke_model_with_messages_def)
next
  case OPENROUTER
  then show ?thesis
    using openrouter_attempts_events[of env self system_prompt messages max_gen_len temp 10 0 tr]
    by (auto simp: invoke_model_with_messages_def openrouter_invoke_model_with_messages_def)
qed

section \<open>Properties of the cache and of the two query paths\<close>

lemma get_result_has_hash:
  "has_hash cache messages_hash model_name \<Longrightarrow>
   \<exists>resp. get_result cache messages_hash model_name = Inr resp"
  by (auto simp: has_hash_def get_result_def)

lemma get_result_add_result:
  "get_result (add_result cache messages_hash payload resp model_name) messages_hash model_name
     = Inr resp"
  by (simp add: get_result_def add_result_def)

lemma model_count_query [simp]: "model (count_query self) = model self"
  and temperature_count_query [simp]: "temperature (count_query self) = temperature self"
  and max_tokens_count_query [simp]: "max_tokens (count_query self) = max_tokens self"
  and variant_count_query [simp]: "variant (count_query self) = variant self"
  by (simp_all add: count_query_def)

lemma query_assertion:
  "system_prompt \<noteq> None \<Longrightarrow> system_prompt \<noteq> Some '''' \<Longrightarrow>
   query hash_messages env self0 system_prompt user_prompt cache tr =
     (Inl AssertionError, count_query self0, cache, tr)"
  by (simp add: query_def Let_def)

lemma query_hit:
  assumes "system_prompt = None \<or> system_prompt = Some ''''"
    and "has_hash cache (hash_messages (query_messages user_prompt) None) (model self0)"
  shows "\<exists>resp. get_result cache (hash_messages (query_messages user_prompt) None)
                  (model self0) = Inr resp
         \<and> query hash_messages env self0 system_prompt user_prompt cache tr =
             (Inr \<lparr>model_dump = None, response = resp\<rparr>, count_query self0, cache, tr)"
  using assms get_result_has_hash[OF assms(2)]
  by (auto simp: query_def Let_def)

lemma query_miss_returns:
  assumes "system_prompt = None \<or> system_prompt = Some ''''"
    and "\<not> has_hash cache (hash_messages (query_messages user_prompt) None) (model self0)"
    and "invoke_model_with_messages env (count_query self0) (Some (or_empty system_prompt))
           (query_messages user_prompt) (max_tokens self0) (temperature self0) tr
         = (Inr resp, tr')"
  shows "query hash_messages env self0 system_prompt user_prompt cache tr =
           (Inr \<lparr>model_dump = None, response = resp\<rparr>, count_query self0,
            add_result cache (hash_messages (query_messages user_prompt) None)
              (query_messages user_prompt) resp (model self0), tr')"
  using assms by (auto simp: query_def Let_def get_result_add_result)

lemma query_miss_raises:
  assumes "system_prompt = None \<or> system_prompt = Some ''''"
    and "\<not> has_hash cache (hash_messages (query_messages user_prompt) None) (model self0)"
    and "invoke_model_with_messages env (count_query self0) (Some (or_empty system_prompt))
           (query_messages user_prompt) (max_tokens self0) (temperature self0) tr
         = (Inl err, tr')"
  shows "query hash_messages env self0 system_prompt user_prompt cache tr =
           (Inl err, count_query self0, cache, tr')"
  using assms by (auto simp: query_def Let_def)

lemma query_history_hit:
  assumes "has_hash cache (hash_messages (query_history_messages history prompt) system_prompt)
             (model self0)"
  shows "\<exists>resp. get_result cache
                  (hash_messages (query_history_messages history prompt) system_prompt)
                  (model self0) = Inr resp
         \<and> query_history hash_messages env self0 system_prompt prompt history cache tr =
             (Inr \<lparr>model_dump = None, response = resp\<rparr>, count_query self0, cache, tr)"
  using assms get_result_has_hash[OF assms(1)]
  by (auto simp: query_history_def Let_def)

lemma query_history_miss_returns:
  assumes "\<not> has_hash cache
               (hash_messages (query_history_messages history prompt) system_prompt)
               (model self0)"
    and "invoke_model_with_messages env (count_query self0) (Some (or_empty system_prompt))
           (query_history_messages history prompt) (max_tokens self0) (temperature self0) tr
         = (Inr resp, tr')"
  shows "query_history hash_messages env self0 system_prompt prompt history cache tr =
           (Inr \<lparr>model_dump = None, response = resp\<rparr>, count_query self0,
            add_result cache
              (hash_messages (query_history_messages history prompt) system_prompt)
              (query_history_messages history prompt) resp (model self0), tr')"
  using assms by (auto simp: query_history_def Let_def get_result_add_result)

lemma query_history_miss_raises:
  assumes "\<not> has_hash cache
               (hash_messages (query_history_messages history prompt) system_prompt)
               (model self0)"
    and "invoke_model_with_messages env (count_query self0) (Some (or_empty system_prompt))
           (query_history_messages history prompt) (max_tokens self0) (temperature self0) tr
         = (Inl err, tr')"
  shows "query_history hash_messages env self0 system_prompt prompt history cache tr =
           (Inl err, count_query self0, cache, tr')"
  using assms by (auto simp: query_history_def Let_def)

lemma query_adapter:
  "fst (snd (query hash_messages env self0 system_prompt user_prompt cache tr)) =
     count_query self0"
  by (simp add: query_def Let_def get_result_add_result split: prod.splits sum.splits)

lemma query_history_adapter:
  "fst (snd (query_history hash_messages env self0 system_prompt prompt history cache tr)) =
     count_query self0"
  by (simp add: query_history_def Let_def get_result_add_result split: prod.splits sum.splits)

text \<open>The events a call of either path adds to the trace are those of its one invocation.\<close>

lemma query_events:
  "set (snd (snd (snd (query hash_messages env self0 system_prompt user_prompt cache tr))))
     \<subseteq> set tr \<union> {Create \<lparr>req_model = model self0, req_messages = query_messages user_prompt,
                            req_temperature = temperature self0,
                            req_max_tokens = max_tokens self0\<rparr>, Sleep 5}
         \<union> range Append"
  using invoke_model_with_messages_events[of env "count_query self0"
          "Some (or_empty system_prompt)" "query_messages user_prompt" "max_tokens self0"
          "temperature self0" tr]
  by (auto simp: query_def Let_def get_result_add_result split: prod.splits sum.splits)

lemma query_history_events:
  "set (snd (snd (snd (query_history hash_messages env self0 system_prompt prompt history
                         cache tr))))
     \<subseteq> set tr \<union> {Create \<lparr>req_model = model self0,
                            req_messages = query_history_messages history prompt,
                            req_temperature = temperature self0,
                            req_max_tokens = max_tokens self0\<rparr>, Sleep 5}
         \<union> range Append"
  using invoke_model_with_messages_events[of env "count_query self0"
          "Some (or_empty system_prompt)" "query_history_messages history prompt"
          "max_tokens self0" "temperature self0" tr]
  by (auto simp: query_history_def Let_def get_result_add_result split: prod.splits sum.splits)

lemma set_requests_made: "set (requests_made tr) = {req. Create req \<in> set tr}"
  by (induction tr rule: requests_made.induct) auto

text \<open>Every request that a call of either path adds carries the adapter's max_tokens.\<close>

lemma query_requests_max_tokens:
  "set (map req_max_tokens (requests_made (snd (snd (snd
      (query hash_messages env self0 system_prompt user_prompt cache tr))))))
     \<subseteq> set (map req_max_tokens (requests_made tr)) \<union> {max_tokens self0}"
  using query_events[of hash_messages env self0 system_prompt user_prompt cache tr]
  by (auto simp: set_requests_made)

lemma query_history_requests_max_tokens:
  "set (map req_max_tokens (requests_made (snd (snd (snd
      (query_history hash_messages env self0 system_prompt prompt history cache tr))))))
     \<subseteq> set (map req_max_tokens (requests_made tr)) \<union> {max_tokens self0}"
  using query_history_events[of hash_messages env self0 system_prompt prompt history cache tr]
  by (auto simp: set_requests_made)

section \<open>The claims\<close>

subsection \<open>C1: cache hit, cache miss\<close>

text \<open>
  C1, as stated, fails on two inputs, each time by a guard of the code. A \<^verbatim>\<open>query\<close> with
  the system prompt \<open>Be brief\<close> raises the assertion error although the cache holds the
  entry for its fingerprint; and on a miss against a backend that is always rate-limited
  the one invocation raises after its last attempt, so that no response is stored or
  returned.
\<close>

theorem query_contract_counterexample:
  "has_hash hi_cache (canonical_form (query_messages ''hi'') None) (model openrouter_m)
   \<and> fst (query canonical_form answers_four openrouter_m (Some ''Be brief'') ''hi'' hi_cache [])
       = Inl AssertionError
   \<and> \<not> has_hash Map.empty (canonical_form (query_messages ''hi'') None) (model openrouter_m)
   \<and> fst (query canonical_form always_rate_limited openrouter_m (Some '''') ''hi'' Map.empty [])
       = Inl (ValueError ''Ratelimit exceeded too many times!'')
   \<and> dom (fst (snd (snd (query canonical_form always_rate_limited openrouter_m (Some '''')
                            ''hi'' Map.empty [])))) = {}"
  by (simp add: query_def Let_def call_defs
        canonical_form_def openrouter_m_def answers_four_def always_rate_limited_def
        hi_request_def hi_cache_def openrouter_attempts.simps)

text \<open>
  C1, amended. For every call of \<^verbatim>\<open>query\<close> with an absent or empty system prompt, and for
  every call of \<^verbatim>\<open>query_history\<close>: when the cache holds the fingerprint for the adapter's
  model, the call returns the stored response and leaves the cache and the trace as they
  were (no network call); when it does not, the call makes one invocation of
  \<^verbatim>\<open>invoke_model_with_messages\<close>, from the trace it started with, and when that invocation
  returns a response, the call stores it under (model, fingerprint), returns it, and
  leaves the trace of that one invocation.
\<close>

theorem query_hit_or_single_invoke:
  "((system_prompt = None \<or> system_prompt = Some '''') \<longrightarrow>
      has_hash cache (hash_messages (query_messages user_prompt) None) (model self0) \<longrightarrow>
      (\<exists>resp. get_result cache (hash_messages (query_messages user_prompt) None) (model self0)
                 = Inr resp
         \<and> query hash_messages env self0 system_prompt user_prompt cache tr =
             (Inr \<lparr>model_dump = None, response = resp\<rparr>, count_query self0, cache, tr)))
   \<and> ((system_prompt = None \<or> system_prompt = Some '''') \<longrightarrow>
      \<not> has_hash cache (hash_messages (query_messages user_prompt) None) (model self0) \<longrightarrow>
      invoke_model_with_messages env (count_query self0) (Some (or_empty system_prompt))
        (query_messages user_prompt) (max_tokens self0) (temperature self0) tr
        = (Inr resp1, tr1) \<longrightarrow>
      query hash_messages env self0 system_prompt user_prompt cache tr =
        (Inr \<lparr>model_dump = None, response = resp1\<rparr>, count_query self0,
         add_result cache (hash_messages (query_messages user_prompt) None)
           (query_messages user_prompt) resp1 (model self0), tr1))
   \<and> (has_hash cache (hash_messages (query_history_messages history prompt) system_prompt)
         (model self0) \<longrightarrow>
      (\<exists>resp. get_result cache
                 (hash_messages (query_history_messages history prompt) system_prompt)
                 (model self0) = Inr resp
         \<and> query_history hash_messages env self0 system_prompt prompt history cache tr =
             (Inr \<lparr>model_dump = None, response = resp\<rparr>, count_query self0, cache, tr)))
   \<and> (\<not> has_hash cache (hash_messages (query_history_messages history prompt) system_prompt)
         (model self0) \<longrightarrow>
      invoke_model_with_messages env (count_query self0) (Some (or_empty system_prompt))
        (query_history_messages history prompt) (max_tokens self0) (temperature self0) tr
        = (Inr resp2, tr2) \<longrightarrow>
      query_history hash_messages env self0 system_prompt prompt history cache tr =
        (Inr \<lparr>model_dump = None, response = resp2\<rparr>, count_query self0,
         add_result cache (hash_messages (query_history_messages history prompt) system_prompt)
           (query_history_messages history prompt) resp2 (model self0), tr2))"
proof (intro conjI impI)
  assume "system_prompt = None \<or> system_prompt = Some ''''"
    and "has_hash cache (hash_messages (query_messages user_prompt) None) (model self0)"
  then show "\<exists>resp. get_result cache (hash_messages (query_messages user_prompt) None)
                 (model self0) = Inr resp
         \<and> query hash_messages env self0 system_prompt user_prompt cache tr =
             (Inr \<lparr>model_dump = None, response = resp\<rparr>, count_query self0, cache, tr)"
    by (rule query_hit)
next
  assume "system_prompt = None \<or> system_prompt = Some ''''"
    and "\<not> has_hash cache (hash_messages (query_messages user_prompt) None) (model self0)"
    and "invoke_model_with_messages env (count_query self0) (Some (or_empty system_prompt))
        (query_messages user_prompt) (max_tokens self0) (temperature self0) tr
        = (Inr resp1, tr1)"
  then show "query hash_messages env self0 system_prompt user_prompt cache tr =
        (Inr \<lparr>model_dump = None, response = resp1\<rparr>, count_query self0,
         add_result cache (hash_messages (query_messages user_prompt) None)
           (query_messages user_prompt) resp1 (model self0), tr1)"
    by (rule query_miss_returns)
next
  assume "has_hash cache (hash_messages (query_history_messages history prompt) system_prompt)
         (model self0)"
  then show "\<exists>resp. get_result cache
                 (hash_messages (query_history_messages history prompt) system_prompt)
                 (model self0) = Inr resp
         \<and> query_history hash_messages env self0 system_prompt prompt history cache tr =
             (Inr \<lparr>model_dump = None, response = resp\<rparr>, count_query self0, cache, tr)"
    by (rule query_history_hit)
next
  assume "\<not> has_hash cache (hash_messages (query_history_messages history prompt) system_prompt)
         (model self0)"
    and "invoke_model_with_messages env (count_query self0) (Some (or_empty system_prompt))
        (query_history_messages history prompt) (max_tokens self0) (temperature self0) tr
        = (Inr resp2, tr2)"
  then show "query_history hash_messages env self0 system_prompt prompt history cache tr =
        (Inr \<lparr>model_dump = None, response = resp2\<rparr>, count_query self0,
         add_result cache (hash_messages (query_history_messages history prompt) system_prompt)
           (query_history_messages history prompt) resp2 (model self0), tr2)"
    by (rule query_history_miss_returns)
qed

text \<open>
  The witness is the scenario of the spec, on both paths: the first call misses, makes one
  network call and stores the answer 4; the second call, with the same arguments, is a hit:
  it returns 4 and adds nothing to the trace.
\<close>

theorem query_hit_or_single_invoke_witness:
  "query canonical_form answers_four openrouter_m (Some '''') ''hi'' Map.empty []
     = (Inr \<lparr>model_dump = None, response = ''4''\<rparr>, count_query openrouter_m, hi_cache,
        [Create hi_request, Append ''4''])
   \<and> query canonical_form answers_four (count_query openrouter_m) (Some '''') ''hi'' hi_cache
       [Create hi_request, Append ''4'']
     = (Inr \<lparr>model_dump = None, response = ''4''\<rparr>, count_query (count_query openrouter_m),
        hi_cache, [Create hi_request, Append ''4''])
   \<and> query_history canonical_form answers_four openrouter_m None ''hi'' [] Map.empty []
     = (Inr \<lparr>model_dump = None, response = ''4''\<rparr>, count_query openrouter_m, hi_cache,
        [Create hi_request, Append ''4''])
   \<and> query_history canonical_form answers_four (count_query openrouter_m) None ''hi'' []
       hi_cache [Create hi_request, Append ''4'']
     = (Inr \<lparr>model_dump = None, response = ''4''\<rparr>, count_query (count_query openrouter_m),
        hi_cache, [Create hi_request, Append ''4''])"
proof -
  let ?T = "[Create hi_request, Append ''4'']"
  let ?a = "count_query openrouter_m"
  have m: "model openrouter_m = ''m''" "model ?a = ''m''"
    by (simp_all add: call_defs
          canonical_form_def openrouter_m_def answers_four_def always_rate_limited_def
          hi_request_def hi_cache_def)
  have miss: "\<not> has_hash Map.empty fp (model openrouter_m)" for fp :: "string option \<times> (string \<times> string) list"
    by (simp add: has_hash_def)
  have hitq: "has_hash hi_cache (canonical_form (query_messages ''hi'') None) (model ?a)"
    by (simp add: call_defs
          canonical_form_def openrouter_m_def answers_four_def always_rate_limited_def
          hi_request_def hi_cache_def)
  have hith: "has_hash hi_cache (canonical_form (query_history_messages [] ''hi'') None) (model ?a)"
    by (simp add: call_defs
          canonical_form_def openrouter_m_def answers_four_def always_rate_limited_def
          hi_request_def hi_cache_def)
  have getq: "get_result hi_cache (canonical_form (query_messages ''hi'') None) (model ?a)
                = Inr ''4''"
    by (simp add: call_defs
          canonical_form_def openrouter_m_def answers_four_def always_rate_limited_def
          hi_request_def hi_cache_def)
  have geth: "get_result hi_cache (canonical_form (query_history_messages [] ''hi'') None)
                (model ?a) = Inr ''4''"
    by (simp add: call_defs
          canonical_form_def openrouter_m_def answers_four_def always_rate_limited_def
          hi_request_def hi_cache_def)
  have invq: "invoke_model_with_messages answers_four ?a (Some (or_empty (Some '''')))
                (query_messages ''hi'') (max_tokens openrouter_m) (temperature openrouter_m) []
              = (Inr ''4'', ?T)"
    by (simp add: call_defs
          canonical_form_def openrouter_m_def answers_four_def always_rate_limited_def
          hi_request_def hi_cache_def openrouter_attempts.simps)
  have invh: "invoke_model_with_messages answers_four ?a (Some (or_empty None))
                (query_history_messages [] ''hi'') (max_tokens openrouter_m)
                (temperature openrouter_m) []
              = (Inr ''4'', ?T)"
    by (simp add: call_defs
          canonical_form_def openrouter_m_def answers_four_def always_rate_limited_def
          hi_request_def hi_cache_def openrouter_attempts.simps)
  have c1: "add_result Map.empty (canonical_form (query_messages ''hi'') None)
              (query_messages ''hi'') ''4'' (model openrouter_m) = hi_cache"
    by (simp add: hi_cache_def m)
  have c2: "add_result Map.empty (canonical_form (query_history_messages [] ''hi'') None)
              (query_history_messages [] ''hi'') ''4'' (model openrouter_m) = hi_cache"
    by (simp add: hi_cache_def m query_messages_def query_history_messages_def)
  have w1: "query canonical_form answers_four openrouter_m (Some '''') ''hi'' Map.empty []
     = (Inr \<lparr>model_dump = None, response = ''4''\<rparr>, ?a, hi_cache, ?T)"
    using query_hit_or_single_invoke[where hash_messages = canonical_form,
            THEN conjunct2, THEN conjunct1, rule_format, OF _ miss invq]
    by (simp add: c1)
  have w2: "query canonical_form answers_four ?a (Some '''') ''hi'' hi_cache ?T
     = (Inr \<lparr>model_dump = None, response = ''4''\<rparr>, count_query ?a, hi_cache, ?T)"
    using query_hit_or_single_invoke[where hash_messages = canonical_form
            and system_prompt = "Some ''''" and env = answers_four and tr = ?T,
            THEN conjunct1, rule_format, OF _ hitq] getq
    by auto
  have w3: "query_history canonical_form answers_four openrouter_m None ''hi'' [] Map.empty []
     = (Inr \<lparr>model_dump = None, response = ''4''\<rparr>, ?a, hi_cache, ?T)"
    using query_hit_or_single_invoke[where hash_messages = canonical_form,
            THEN conjunct2, THEN conjunct2, THEN conjunct2, rule_format, OF miss invh]
    by (simp add: c2)
  have w4: "query_history canonical_form answers_four ?a None ''hi'' [] hi_cache ?T
     = (Inr \<lparr>model_dump = None, response = ''4''\<rparr>, count_query ?a, hi_cache, ?T)"
    using query_hit_or_single_invoke[where hash_messages = canonical_form
            and env = answers_four and tr = ?T,
            THEN conjunct2, THEN conjunct2, THEN conjunct1, rule_format, OF hith] geth
    by auto
  from w1 w2 w3 w4 show ?thesis by (intro conjI)
qed

subsection \<open>C2: a completion ends the loop\<close>

text \<open>
  C2. The claim is that both variants return the response text at the first attempt that
  succeeds, so that a backend rate-limited twice and answering at the third call yields the
  answer. The OpenRouter variant does: 3 network calls, 2 sleeps, the answer. The VLLM
  variant, whose \<^verbatim>\<open>try\<close> block has no \<^verbatim>\<open>return\<close>, drops the answer: against the same
  backend it goes on to 10 network calls and raises the \<^verbatim>\<open>ValueError\<close> of the exhausted
  retries.
\<close>

theorem vllm_drops_completion:
  "fst (invoke_model_with_messages limited_twice vllm_m (Some '''') (query_messages ''hi'') 50 0 [])
     = Inl (ValueError ''Ratelimit exceeded too many times!'')
   \<and> calls_made (snd (invoke_model_with_messages limited_twice vllm_m (Some '''')
                        (query_messages ''hi'') 50 0 [])) = 10
   \<and> sleeps_made (snd (invoke_model_with_messages limited_twice vllm_m (Some '''')
                         (query_messages ''hi'') 50 0 [])) = [5, 5]
   \<and> invoke_model_with_messages limited_twice openrouter_m (Some '''') (query_messages ''hi'')
        50 0 []
     = (Inr ''ok'', [Create hi_request, Sleep 5, Create hi_request, Sleep 5, Create hi_request,
                     Append ''ok''])"
  by (simp add: invoke_model_with_messages_def vllm_invoke_model_with_messages_def
        openrouter_invoke_model_with_messages_def vllm_m_def VLLMWrapper_def openrouter_m_def
        OPENROUTERWrapper_def limited_twice_def hi_request_def
        vllm_attempts.simps openrouter_attempts.simps)

subsection \<open>C3: the messages that are sent\<close>

text \<open>
  C3. The claim is that the list sent to the backend starts with a system message when the
  system prompt is not empty. Both variants build that list, \<^verbatim>\<open>new_messages\<close>, and then
  pass \<^verbatim>\<open>messages\<close>, the argument, to the network call: with the system prompt
  \<open>Be brief\<close> the list that is built has the system message in front, and the request that
  is sent has the single user message and no system message.
\<close>

theorem system_message_not_sent:
  "build_new_messages (Some ''Be brief'') (query_messages ''hi'')
     = [\<lparr>role = ''system'', content = ''Be brief''\<rparr>, \<lparr>role = ''user'', content = ''hi''\<rparr>]
   \<and> map req_messages (requests_made (snd (invoke_model_with_messages answers_four openrouter_m
          (Some ''Be brief'') (query_messages ''hi'') 50 0 [])))
     = [query_messages ''hi'']
   \<and> set (map req_messages (requests_made (snd (invoke_model_with_messages answers_four vllm_m
          (Some ''Be brief'') (query_messages ''hi'') 50 0 []))))
     = {query_messages ''hi''}
   \<and> query_messages ''hi'' = [\<lparr>role = ''user'', content = ''hi''\<rparr>]"
  by (simp add: invoke_model_with_messages_def vllm_invoke_model_with_messages_def
        openrouter_invoke_model_with_messages_def vllm_m_def VLLMWrapper_def openrouter_m_def
        OPENROUTERWrapper_def answers_four_def query_messages_def build_new_messages_def
        strip_def isspace_def vllm_attempts.simps openrouter_attempts.simps)

subsection \<open>C4: the bound on the attempts\<close>

text \<open>
  C4. The claim is that when every attempt fails the function raises the error of the
  exhausted retries after exactly the maximum number of attempts. In the VLLM variant the
  handler of the exceptions other than the rate-limit error reads the name
  \<^verbatim>\<open>max_attempts\<close>, which that function does not have: against a backend whose every call
  raises such an exception, the call ends after one network call, with a \<^verbatim>\<open>NameError\<close>.
\<close>

theorem vllm_name_error_before_bound:
  "invoke_model_with_messages always_broken vllm_m (Some '''') (query_messages ''hi'') 50 0 []
     = (Inl (NameError ''max_attempts''), [Create hi_request])"
  by (simp add: invoke_model_with_messages_def vllm_invoke_model_with_messages_def
        vllm_m_def VLLMWrapper_def always_broken_def hi_request_def vllm_attempts.simps)

subsection \<open>C5: retries exhausted inside a query\<close>

text \<open>
  C5. When \<^verbatim>\<open>invoke_model_with_messages\<close> raises inside \<^verbatim>\<open>query\<close> or
  \<^verbatim>\<open>query_history\<close> (the cache had no entry for the fingerprint, so the call was made),
  the exception reaches the caller as it is and the cache is the one the call started
  with: nothing is added under (model, fingerprint). This holds for every exception of the
  invocation, the one raised after the last attempt among them.
\<close>

theorem exhausted_retries_leave_cache:
  "((system_prompt = None \<or> system_prompt = Some '''') \<longrightarrow>
      \<not> has_hash cache (hash_messages (query_messages user_prompt) None) (model self0) \<longrightarrow>
      invoke_model_with_messages env (count_query self0) (Some (or_empty system_prompt))
        (query_messages user_prompt) (max_tokens self0) (temperature self0) tr = (Inl err, tr')
      \<longrightarrow>
      query hash_messages env self0 system_prompt user_prompt cache tr =
        (Inl err, count_query self0, cache, tr'))
   \<and> (\<not> has_hash cache (hash_messages (query_history_messages history prompt) system_prompt)
          (model self0) \<longrightarrow>
      invoke_model_with_messages env (count_query self0) (Some (or_empty system_prompt))
        (query_history_messages history prompt) (max_tokens self0) (temperature self0) tr
        = (Inl err', tr'') \<longrightarrow>
      query_history hash_messages env self0 system_prompt prompt history cache tr =
        (Inl err', count_query self0, cache, tr''))"
  by (intro conjI impI; (erule (2) query_miss_raises | erule (1) query_history_miss_raises))

text \<open>
  The witness: an OpenRouter adapter on an empty cache, against a backend that is always
  rate-limited. Both paths make 10 network calls, raise the \<^verbatim>\<open>ValueError\<close> and leave the
  cache empty.
\<close>

theorem exhausted_retries_leave_cache_witness:
  "fst (query canonical_form always_rate_limited openrouter_m None ''hi'' Map.empty [])
     = Inl (ValueError ''Ratelimit exceeded too many times!'')
   \<and> \<not> has_hash (fst (snd (snd (query canonical_form always_rate_limited openrouter_m None
                                    ''hi'' Map.empty []))))
          (canonical_form (query_messages ''hi'') None) ''m''
   \<and> calls_made (snd (snd (snd (query canonical_form always_rate_limited openrouter_m None
                                   ''hi'' Map.empty [])))) = 10
   \<and> fst (query_history canonical_form always_rate_limited openrouter_m (Some ''Be brief'')
            ''hi'' [] Map.empty [])
     = Inl (ValueError ''Ratelimit exceeded too many times!'')
   \<and> \<not> has_hash (fst (snd (snd (query_history canonical_form always_rate_limited openrouter_m
                                    (Some ''Be brief'') ''hi'' [] Map.empty []))))
          (canonical_form (query_history_messages [] ''hi'') (Some ''Be brief'')) ''m''"
proof -
  let ?a = "count_query openrouter_m"
  let ?E = "Inl (ValueError ''Ratelimit exceeded too many times!'') :: error + string"
  have fails: "\<And>i req. attempt_fails always_rate_limited i req"
    by (simp add: attempt_fails_def always_rate_limited_def)
  have m: "model openrouter_m = ''m''" "max_tokens openrouter_m = 50"
    "temperature openrouter_m = 0" "variant openrouter_m = OPENROUTER"
    by (simp_all add: openrouter_m_def OPENROUTERWrapper_def)
  have miss: "\<And>fp. \<not> has_hash Map.empty fp (model openrouter_m)"
    by (simp add: has_hash_def)
  let ?inv = "\<lambda>sp msgs. invoke_model_with_messages always_rate_limited ?a (Some (or_empty sp))
                msgs (max_tokens openrouter_m) (temperature openrouter_m) []"
  have ex: "\<And>sp msgs. fst (openrouter_attempts always_rate_limited ?a sp msgs 50 0 10 0 [])
                 = ?E
               \<and> calls_made (snd (openrouter_attempts always_rate_limited ?a sp msgs 50 0 10 0 []))
                 = calls_made [] + nat (10 - 0)"
    by (rule openrouter_attempts_exhausted) (rule fails)
  have inv: "\<And>sp msgs. fst (?inv sp msgs) = ?E \<and> calls_made (snd (?inv sp msgs)) = 10"
    using ex
    by (simp add: invoke_model_with_messages_def openrouter_invoke_model_with_messages_def m)
  have inv': "\<And>sp msgs. ?inv sp msgs
                = (Inl (ValueError ''Ratelimit exceeded too many times!''), snd (?inv sp msgs))"
    by (simp add: prod_eq_iff inv)
  have q: "query canonical_form always_rate_limited openrouter_m None ''hi'' Map.empty []
             = (Inl (ValueError ''Ratelimit exceeded too many times!''), ?a, Map.empty,
                snd (?inv None (query_messages ''hi'')))"
    by (rule exhausted_retries_leave_cache[THEN conjunct1, rule_format, OF _ miss inv']) simp
  have h: "query_history canonical_form always_rate_limited openrouter_m (Some ''Be brief'')
             ''hi'' [] Map.empty []
             = (Inl (ValueError ''Ratelimit exceeded too many times!''), ?a, Map.empty,
                snd (?inv (Some ''Be brief'') (query_history_messages [] ''hi'')))"
    by (rule exhausted_retries_leave_cache[THEN conjunct2, rule_format, OF miss inv'])
  show ?thesis
    by (simp only: q h fst_conv snd_conv inv) (simp add: has_hash_def)
qed

subsection \<open>C6: the two classes of failure\<close>

text \<open>
  C6. The claim is that a rate-limited attempt is followed by a sleep of 5 and any other
  failure by an immediate retry, and that neither leaves the loop before the bound. In the
  VLLM variant the rate-limited first attempt is followed by the sleep and a second
  attempt; the other exception of the second attempt is not retried: the \<^verbatim>\<open>NameError\<close> of
  its handler leaves the loop after 2 of the 10 attempts.
\<close>

theorem vllm_other_exception_escapes:
  "invoke_model_with_messages limited_then_broken vllm_m (Some '''') (query_messages ''hi'')
     50 0 []
     = (Inl (NameError ''max_attempts''), [Create hi_request, Sleep 5, Create hi_request])"
  by (simp add: invoke_model_with_messages_def vllm_invoke_model_with_messages_def
        vllm_m_def VLLMWrapper_def limited_then_broken_def hi_request_def vllm_attempts.simps)

subsection \<open>C7: the ceiling on max_tokens\<close>

text \<open>
  C7. For a model name that contains \<open>vllm/\<close> or \<open>openrouter/\<close>, and for every requested
  \<^verbatim>\<open>max_tokens\<close>, \<^verbatim>\<open>get_llm\<close> returns an adapter of one of the two classes whose
  \<^verbatim>\<open>max_tokens\<close> is the minimum of the requested value and 40960, and every request that a
  \<^verbatim>\<open>query\<close> or \<^verbatim>\<open>query_history\<close> of that adapter adds to the trace carries that minimum
  as its \<^verbatim>\<open>max_tokens\<close>.
\<close>

theorem get_llm_clamps_max_tokens:
  assumes "py_in ''vllm/'' model_name \<or> py_in ''openrouter/'' model_name"
  shows "\<exists>a. get_llm model_name temp requested = Inr (Wrapper a)
           \<and> max_tokens a = min requested 40960
           \<and> set (map req_max_tokens (requests_made (snd (snd (snd
                 (query hash_messages env a system_prompt user_prompt cache tr))))))
               \<subseteq> set (map req_max_tokens (requests_made tr)) \<union> {min requested 40960}
           \<and> set (map req_max_tokens (requests_made (snd (snd (snd
                 (query_history hash_messages env a system_prompt prompt history cache tr))))))
               \<subseteq> set (map req_max_tokens (requests_made tr)) \<union> {min requested 40960}"
proof -
  have names: "model_name \<noteq> ''claude-35''" "model_name \<noteq> ''gpt4-turbo''"
    "model_name \<noteq> ''gpt4-o''"
    using assms by auto
  let ?sent = "\<lambda>a. set (map req_max_tokens (requests_made (snd (snd (snd
                 (query hash_messages env a system_prompt user_prompt cache tr))))))
               \<subseteq> set (map req_max_tokens (requests_made tr)) \<union> {max_tokens a}
           \<and> set (map req_max_tokens (requests_made (snd (snd (snd
                 (query_history hash_messages env a system_prompt prompt history cache tr))))))
               \<subseteq> set (map req_max_tokens (requests_made tr)) \<union> {max_tokens a}"
  have sent: "?sent a" for a
    by (intro conjI query_requests_max_tokens query_history_requests_max_tokens)
  show ?thesis
  proof (cases "py_in ''vllm/'' model_name")
    case True
    let ?a = "VLLMWrapper (drop 5 model_name) temp (min requested 40960)"
    have "get_llm model_name temp requested = Inr (Wrapper ?a)"
      using names True by (simp add: get_llm_def)
    moreover have "max_tokens ?a = min requested 40960"
      by (simp add: VLLMWrapper_def)
    ultimately show ?thesis
      using sent[of ?a] by simp
  next
    case False
    let ?a = "OPENROUTERWrapper (drop 11 model_name) temp (min requested 40960)"
    from False assms have "py_in ''openrouter/'' model_name" by simp
    then have "get_llm model_name temp requested = Inr (Wrapper ?a)"
      using names False by (simp add: get_llm_def)
    moreover have "max_tokens ?a = min requested 40960"
      by (simp add: OPENROUTERWrapper_def)
    ultimately show ?thesis
      using sent[of ?a] by simp
  qed
qed

text \<open>
  The witness: a request of 100000 tokens gives adapters of 40960, for both prefixes, and
  the request that a query of the OpenRouter adapter sends carries 40960.
\<close>

theorem get_llm_clamps_max_tokens_witness:
  "py_in ''openrouter/'' ''openrouter/gpt''
   \<and> get_llm ''openrouter/gpt'' 0 100000 = Inr (Wrapper (OPENROUTERWrapper ''gpt'' 0 40960))
   \<and> get_llm ''vllm/llama'' 0 100000 = Inr (Wrapper (VLLMWrapper ''llama'' 0 40960))
   \<and> max_tokens (OPENROUTERWrapper ''gpt'' 0 40960) = 40960
   \<and> map req_max_tokens (requests_made (snd (snd (snd
        (query canonical_form answers_four (OPENROUTERWrapper ''gpt'' 0 40960) None ''hi''
           Map.empty []))))) = [40960]"
proof -
  have name: "py_in ''openrouter/'' ''openrouter/gpt''" by simp
  have g: "get_llm ''openrouter/gpt'' 0 100000 = Inr (Wrapper (OPENROUTERWrapper ''gpt'' 0 40960))"
    by (simp add: get_llm_def)
  have g': "get_llm ''vllm/llama'' 0 100000 = Inr (Wrapper (VLLMWrapper ''llama'' 0 40960))"
    by (simp add: get_llm_def)
  from get_llm_clamps_max_tokens[OF disjI2, OF name, of 0 100000]
  obtain a where a: "get_llm ''openrouter/gpt'' 0 100000 = Inr (Wrapper a)"
    and m: "max_tokens a = min 100000 40960"
    by blast
  from a g have "a = OPENROUTERWrapper ''gpt'' 0 40960" by simp
  with m have m': "max_tokens (OPENROUTERWrapper ''gpt'' 0 40960) = 40960" by simp
  have q: "map req_max_tokens (requests_made (snd (snd (snd
        (query canonical_form answers_four (OPENROUTERWrapper ''gpt'' 0 40960) None ''hi''
           Map.empty []))))) = [40960]"
    by (simp add: query_def Let_def call_defs
          canonical_form_def answers_four_def openrouter_attempts.simps)
  from name g g' m' q show ?thesis by (intro conjI)
qed

subsection \<open>C9: the query counter and the configuration\<close>

text \<open>
  C9. Every call of \<^verbatim>\<open>query\<close> and of \<^verbatim>\<open>query_history\<close>, whether it hits the cache,
  misses it or raises, leaves the adapter with \<^verbatim>\<open>count_queries\<close> one higher and with the
  same model, temperature and max_tokens.
\<close>

theorem query_counter_and_config:
  "count_queries (fst (snd (query hash_messages env self0 system_prompt user_prompt cache tr)))
     = count_queries self0 + 1
   \<and> model (fst (snd (query hash_messages env self0 system_prompt user_prompt cache tr)))
     = model self0
   \<and> temperature (fst (snd (query hash_messages env self0 system_prompt user_prompt cache tr)))
     = temperature self0
   \<and> max_tokens (fst (snd (query hash_messages env self0 system_prompt user_prompt cache tr)))
     = max_tokens self0
   \<and> count_queries (fst (snd (query_history hash_messages env self0 system_prompt prompt
                                 history cache tr)))
     = count_queries self0 + 1
   \<and> model (fst (snd (query_history hash_messages env self0 system_prompt prompt history
                         cache tr)))
     = model self0
   \<and> temperature (fst (snd (query_history hash_messages env self0 system_prompt prompt
                               history cache tr)))
     = temperature self0
   \<and> max_tokens (fst (snd (query_history hash_messages env self0 system_prompt prompt history
                              cache tr)))
     = max_tokens self0"
  by (simp add: query_adapter query_history_adapter) (simp add: count_query_def)

text \<open>
  An instance: a fresh adapter has made one query after a call that ends in the assertion
  error, and one after a call of \<^verbatim>\<open>query_history\<close> that is answered.
\<close>

theorem query_counter_and_config_witness:
  "count_queries (fst (snd (query canonical_form answers_four openrouter_m (Some ''Be brief'')
                              ''hi'' Map.empty []))) = 1
   \<and> max_tokens (fst (snd (query canonical_form answers_four openrouter_m (Some ''Be brief'')
                             ''hi'' Map.empty []))) = 50
   \<and> count_queries (fst (snd (query_history canonical_form answers_four openrouter_m
                                 (Some ''Be brief'') ''hi'' [] Map.empty []))) = 1
   \<and> model (fst (snd (query_history canonical_form answers_four openrouter_m
                         (Some ''Be brief'') ''hi'' [] Map.empty []))) = ''m''"
  using query_counter_and_config[where hash_messages = canonical_form
          and env = answers_four and ?self0.0 = openrouter_m
          and system_prompt = "Some ''Be brief''" and user_prompt = "''hi''"
          and cache = Map.empty and tr = "[]" and prompt = "''hi''" and history = "[]"]
  by (simp add: openrouter_m_def OPENROUTERWrapper_def initial_count_queries_def)

subsection \<open>C10: the assertion of the single-turn path\<close>

text \<open>
  C10. A call of \<^verbatim>\<open>query\<close> whose system prompt is neither \<^verbatim>\<open>None\<close> nor the empty string
  raises the assertion error; the cache and the trace are untouched (no lookup result is
  used, no network call is made), and only the counter has moved. With \<^verbatim>\<open>None\<close> or the
  empty string the call never raises the assertion error.
\<close>

theorem query_asserts_empty_system_prompt:
  "(system_prompt \<noteq> None \<and> system_prompt \<noteq> Some '''' \<longrightarrow>
      query hash_messages env self0 system_prompt user_prompt cache tr =
        (Inl AssertionError, count_query self0, cache, tr))
   \<and> (system_prompt = None \<or> system_prompt = Some '''' \<longrightarrow>
      fst (query hash_messages env self0 system_prompt user_prompt cache tr)
        \<noteq> Inl AssertionError)"
proof (intro conjI impI)
  assume "system_prompt \<noteq> None \<and> system_prompt \<noteq> Some ''''"
  then show "query hash_messages env self0 system_prompt user_prompt cache tr =
        (Inl AssertionError, count_query self0, cache, tr)"
    by (simp add: query_assertion)
next
  assume ok: "system_prompt = None \<or> system_prompt = Some ''''"
  let ?fp = "hash_messages (query_messages user_prompt) None"
  let ?inv = "invoke_model_with_messages env (count_query self0) (Some (or_empty system_prompt))
                (query_messages user_prompt) (max_tokens self0) (temperature self0) tr"
  show "fst (query hash_messages env self0 system_prompt user_prompt cache tr)
          \<noteq> Inl AssertionError"
  proof (cases "has_hash cache ?fp (model self0)")
    case True
    from query_hit[where hash_messages = hash_messages, OF ok True, of env tr]
    show ?thesis by auto
  next
    case False
    show ?thesis
    proof (cases "fst ?inv")
      case (Inl err)
      then have inv: "?inv = (Inl err, snd ?inv)" by (metis prod.collapse)
      from invoke_model_with_messages_raises[OF Inl] have "err \<noteq> AssertionError" by auto
      with query_miss_raises[where hash_messages = hash_messages, OF ok False inv]
      show ?thesis by simp
    next
      case (Inr resp)
      then have inv: "?inv = (Inr resp, snd ?inv)" by (metis prod.collapse)
      from query_miss_returns[where hash_messages = hash_messages, OF ok False inv]
      show ?thesis by simp
    qed
  qed
qed

text \<open>
  The witness: the system prompt \<open>Be brief\<close> is refused although the cache holds the answer
  to the user prompt; the empty system prompt is served from that cache.
\<close>

theorem query_asserts_empty_system_prompt_witness:
  "query canonical_form answers_four openrouter_m (Some ''Be brief'') ''hi''
     (add_result Map.empty (canonical_form (query_messages ''hi'') None) (query_messages ''hi'')
        ''4'' ''m'') []
     = (Inl AssertionError, count_query openrouter_m,
        add_result Map.empty (canonical_form (query_messages ''hi'') None) (query_messages ''hi'')
          ''4'' ''m'', [])
   \<and> fst (query canonical_form answers_four openrouter_m (Some '''') ''hi''
            (add_result Map.empty (canonical_form (query_messages ''hi'') None)
               (query_messages ''hi'') ''4'' ''m'') [])
     \<noteq> Inl AssertionError"
proof (rule conjI)
  show "query canonical_form answers_four openrouter_m (Some ''Be brief'') ''hi''
     (add_result Map.empty (canonical_form (query_messages ''hi'') None) (query_messages ''hi'')
        ''4'' ''m'') []
     = (Inl AssertionError, count_query openrouter_m,
        add_result Map.empty (canonical_form (query_messages ''hi'') None) (query_messages ''hi'')
          ''4'' ''m'', [])"
    by (rule query_asserts_empty_system_prompt[THEN conjunct1, rule_format]) simp
  show "fst (query canonical_form answers_four openrouter_m (Some '''') ''hi''
            (add_result Map.empty (canonical_form (query_messages ''hi'') None)
               (query_messages ''hi'') ''4'' ''m'') [])
     \<noteq> Inl AssertionError"
    by (rule query_asserts_empty_system_prompt[THEN conjunct2, rule_format]) simp
qed

end
